theory Spec2Isabelle
  imports Main
begin

section \<open>Kubernetes API objects read and written by the webhook\<close>

text \<open>
  Go maps are modelled as partial functions; a map that may be \<open>nil\<close> is an
  \<open>option\<close> of one. A pointer that may be \<open>nil\<close> is an \<open>option\<close> too, and a
  byte slice is a \<open>string\<close> (a list of 8-bit characters).
\<close>

type_synonym go_map = "(string \<rightharpoonup> string) option"

record ObjectMeta =
  Name :: string
  Namespace :: string
  Labels :: go_map
  Annotations :: go_map

record Secret =
  ObjectMeta :: ObjectMeta

record AdmissionRequest =
  req_UID :: string
  req_Kind :: string
  req_Namespace :: string
  req_Name :: string
  req_Operation :: string
  Object_Raw :: string

record Status =
  Message :: string

record AdmissionResponse =
  UID :: string
  Allowed :: bool
  Result :: "Status option"
  Patch :: "string option"
  PatchType :: "string option"

record AdmissionReview =
  Request :: "AdmissionRequest option"
  Response :: "AdmissionResponse option"

text \<open>The zero values \<open>v1beta1.AdmissionResponse{}\<close> and \<open>v1beta1.AdmissionReview{}\<close>.\<close>

definition AdmissionResponse_zero :: AdmissionResponse where
  "AdmissionResponse_zero =
     \<lparr>UID = [], Allowed = False, Result = None, Patch = None, PatchType = None\<rparr>"

definition AdmissionReview_zero :: AdmissionReview where
  "AdmissionReview_zero = \<lparr>Request = None, Response = None\<rparr>"

text \<open>Constants of the imported API packages.\<close>

definition NamespaceSystem :: string where
  "NamespaceSystem = ''kube-system''"

definition NamespacePublic :: string where
  "NamespacePublic = ''kube-public''"

definition PatchTypeJSONPatch :: string where
  "PatchTypeJSONPatch = ''JSONPatch''"

definition StatusBadRequest :: nat where
  "StatusBadRequest = 400"

definition StatusUnsupportedMediaType :: nat where
  "StatusUnsupportedMediaType = 415"

definition StatusInternalServerError :: nat where
  "StatusInternalServerError = 500"

definition StatusOK :: nat where
  "StatusOK = 200"

section \<open>Package-level variables and constants\<close>

definition ignoredNamespaces :: "string list" where
  "ignoredNamespaces = [NamespaceSystem, NamespacePublic]"

definition syncAnnotationKey :: string where
  "syncAnnotationKey = ''kubed.appscode.com/sync''"

definition originAnnotationKey :: string where
  "originAnnotationKey = ''kubed.appscode.com/origin''"

definition certManagerAnnotationKey :: string where
  "certManagerAnnotationKey = ''cert-manager.io/certificate-name''"

section \<open>Policy: is the object to be mutated?\<close>

text \<open>
  \<open>admissionRequired\<close> walks the ignored list and returns \<open>False\<close> at the first entry
  equal to the object's namespace. Logging is not modelled anywhere in this theory.
\<close>

fun admissionRequired :: "string list \<Rightarrow> ObjectMeta \<Rightarrow> bool" where
  "admissionRequired [] metadata = True"
| "admissionRequired (namespace # ignoredList) metadata =
     (if Namespace metadata = namespace then False
      else admissionRequired ignoredList metadata)"

text \<open>\<open>_, ok := m[key]\<close> on a map that is not \<open>nil\<close>.\<close>

definition has_key :: "(string \<rightharpoonup> string) \<Rightarrow> string \<Rightarrow> bool" where
  "has_key m key = (case m key of None \<Rightarrow> False | Some v \<Rightarrow> True)"

definition mutationRequired :: "string list \<Rightarrow> ObjectMeta \<Rightarrow> bool" where
  "mutationRequired ignoredList metadata =
     (let required = admissionRequired ignoredList metadata;
          annotations = (case Annotations metadata of
                           None \<Rightarrow> Map.empty
                         | Some m \<Rightarrow> m)
      in if required then
           (if has_key annotations certManagerAnnotationKey then
              (if has_key annotations originAnnotationKey then False else True)
            else required)
         else required)"

section \<open>Building the patch\<close>

text \<open>
  The \<open>Value\<close> field has type \<open>interface{}\<close>; the code stores either the one-entry map
  \<open>map[string]string{key: value}\<close> or the string \<open>value\<close> in it.
\<close>

datatype patch_value = MapValue string string | StringValue string

record patchOperation =
  Op :: string
  Path :: string
  Value :: patch_value

text \<open>\<open>m[key]\<close> on a map that may be \<open>nil\<close>: a missing key reads as the empty string.\<close>

definition index_map :: "go_map \<Rightarrow> string \<Rightarrow> string" where
  "index_map target key =
     (case target of
        None \<Rightarrow> []
      | Some m \<Rightarrow> (case m key of None \<Rightarrow> [] | Some v \<Rightarrow> v))"

definition is_nil :: "'a option \<Rightarrow> bool" where
  "is_nil p = (case p of None \<Rightarrow> True | Some x \<Rightarrow> False)"

text \<open>
  The loop of \<open>updateAnnotation\<close>. Go ranges over the map \<open>added\<close> in an order it does
  not specify, so the entries are given as a list in the order the loop visits them.
  The loop carries \<open>target\<close>, which the first branch overwrites with an empty map, and
  the accumulated \<open>patch\<close>.
\<close>

fun updateAnnotation_loop ::
  "go_map \<Rightarrow> patchOperation list \<Rightarrow> (string \<times> string) list \<Rightarrow> patchOperation list" where
  "updateAnnotation_loop target patch [] = patch"
| "updateAnnotation_loop target patch ((key, value) # added) =
     (if is_nil target \<or> index_map target key = [] then
        updateAnnotation_loop (Some Map.empty)
          (patch @ [\<lparr>Op = ''add'', Path = ''/metadata/annotations'',
                     Value = MapValue key value\<rparr>]) added
      else
        updateAnnotation_loop target
          (patch @ [\<lparr>Op = ''replace'', Path = ''/metadata/annotations/'' @ key,
                     Value = StringValue value\<rparr>]) added)"

definition updateAnnotation :: "go_map \<Rightarrow> (string \<times> string) list \<Rightarrow> patchOperation list" where
  "updateAnnotation target added = updateAnnotation_loop target [] added"

section \<open>Encoding the patch\<close>

text \<open>
  \<open>json.Marshal\<close> on a slice of \<open>patchOperation\<close>, following the field tags
  \<open>op\<close>, \<open>path\<close> and \<open>value,omitempty\<close> of the struct. The \<open>Value\<close> interface always
  holds a map or a string here, so the field is never omitted. String escaping is the
  encoder's for ASCII: the quote and the backslash get a backslash, newline, carriage
  return and tab their short form, other control characters and \<open><\<close>, \<open>>\<close>, \<open>&\<close> the
  form \<open>\u00XX\<close>. Bytes outside ASCII are copied, which is what the encoder does with
  well-formed UTF-8 other than U+2028 and U+2029. A \<open>nil\<close> slice encodes as \<open>null\<close>.
\<close>

definition hex_digit :: "nat \<Rightarrow> char" where
  "hex_digit n = ''0123456789abcdef'' ! (n mod 16)"

definition json_escape_char :: "char \<Rightarrow> string" where
  "json_escape_char c =
     (if c = CHR 0x22 \<or> c = CHR 0x5C then [CHR 0x5C, c]
      else if c = CHR 0x0A then [CHR 0x5C, CHR ''n'']
      else if c = CHR 0x0D then [CHR 0x5C, CHR ''r'']
      else if c = CHR 0x09 then [CHR 0x5C, CHR ''t'']
      else if (of_char c :: nat) < 0x20 \<or> c = CHR ''<'' \<or> c = CHR ''>'' \<or> c = CHR ''&'' then
        [CHR 0x5C, CHR ''u'', CHR ''0'', CHR ''0'',
         hex_digit (of_char c div 16), hex_digit (of_char c mod 16)]
      else [c])"

definition json_string :: "string \<Rightarrow> string" where
  "json_string s = [CHR 0x22] @ concat (map json_escape_char s) @ [CHR 0x22]"

fun json_value :: "patch_value \<Rightarrow> string" where
  "json_value (MapValue key value) =
     ''{'' @ json_string key @ '':'' @ json_string value @ ''}''"
| "json_value (StringValue value) = json_string value"

definition json_patchOperation :: "patchOperation \<Rightarrow> string" where
  \<open>json_patchOperation p =
     ''{"op":'' @ json_string (Op p) @ '',"path":'' @ json_string (Path p) @
     '',"value":'' @ json_value (Value p) @ ''}''\<close>

fun json_elements :: "string list \<Rightarrow> string" where
  "json_elements [] = []"
| "json_elements [x] = x"
| "json_elements (x # y # ys) = x @ '','' @ json_elements (y # ys)"

definition json_Marshal :: "patchOperation list \<Rightarrow> string + string" where
  "json_Marshal patch =
     (case patch of
        [] \<Rightarrow> Inr ''null''
      | p # ps \<Rightarrow> Inr (''['' @ json_elements (map json_patchOperation patch) @ '']''))"

definition createPatch :: "go_map \<Rightarrow> (string \<times> string) list \<Rightarrow> string + string" where
  "createPatch availableAnnotations annotations =
     json_Marshal ([] @ updateAnnotation availableAnnotations annotations)"

section \<open>The mutation handler\<close>

text \<open>
  \<open>mutate\<close> reads fields of \<open>ar.Request\<close> for its first log line before anything
  else, so a review without a request makes it panic. \<open>Unmarshal\<close> stands for
  \<open>json.Unmarshal\<close> into a \<open>corev1.Secret\<close>: it returns the error message or the
  decoded secret. \<open>availableAnnotations\<close> is declared and never assigned: it is \<open>nil\<close>
  when \<open>createPatch\<close> gets it.
\<close>

datatype panic = NilPointerDereference

definition mutate :: "(string \<Rightarrow> string + Secret) \<Rightarrow> AdmissionReview \<Rightarrow> panic + AdmissionResponse" where
  "mutate Unmarshal ar =
     (case Request ar of
        None \<Rightarrow> Inl NilPointerDereference
      | Some req \<Rightarrow>
          (case Unmarshal (Object_Raw req) of
             Inl err \<Rightarrow>
               Inr (AdmissionResponse_zero\<lparr>Result := Some \<lparr>Message = err\<rparr>\<rparr>)
           | Inr secret \<Rightarrow>
               (let objectMeta = ObjectMeta secret in
                if \<not> mutationRequired ignoredNamespaces objectMeta then
                  Inr (AdmissionResponse_zero\<lparr>Allowed := True\<rparr>)
                else
                  (let annotations = [(syncAnnotationKey, ''true'')] in
                   case createPatch None annotations of
                     Inl err \<Rightarrow>
                       Inr (AdmissionResponse_zero\<lparr>Result := Some \<lparr>Message = err\<rparr>\<rparr>)
                   | Inr patchBytes \<Rightarrow>
                       Inr (AdmissionResponse_zero
                              \<lparr>Allowed := True, Patch := Some patchBytes,
                               PatchType := Some PatchTypeJSONPatch\<rparr>)))))"

section \<open>The HTTP handler\<close>

text \<open>
  The request: \<open>Body\<close> is \<open>None\<close> for a \<open>nil\<close> body and otherwise what
  \<open>ioutil.ReadAll\<close> returns, an error or the data; \<open>Header\<close> maps a canonical header
  name to its values.

  The response writer follows the contract of \<open>http.ResponseWriter\<close>: the first
  \<open>WriteHeader\<close> fixes the status code and later ones are ignored; \<open>Write\<close> sends
  status 200 first if no header has been sent. \<open>WriteErr\<close> is the error every \<open>Write\<close>
  on this connection returns, if there is one.
\<close>

record http_Request =
  Body :: "(string + string) option"
  Header :: "string \<rightharpoonup> string list"
  URL_Path :: string

record ResponseWriter =
  status :: "nat option"
  written :: string
  WriteErr :: "string option"

definition Header_Get :: "(string \<rightharpoonup> string list) \<Rightarrow> string \<Rightarrow> string" where
  "Header_Get h key = (case h key of None \<Rightarrow> [] | Some [] \<Rightarrow> [] | Some (v # vs) \<Rightarrow> v)"

definition WriteHeader :: "nat \<Rightarrow> ResponseWriter \<Rightarrow> ResponseWriter" where
  "WriteHeader code w = (case status w of None \<Rightarrow> w\<lparr>status := Some code\<rparr> | Some c \<Rightarrow> w)"

definition Write :: "string \<Rightarrow> ResponseWriter \<Rightarrow> string option \<times> ResponseWriter" where
  "Write data w =
     (let w' = WriteHeader StatusOK w in
      case WriteErr w' of
        None \<Rightarrow> (None, w'\<lparr>written := written w' @ data\<rparr>)
      | Some err \<Rightarrow> (Some err, w'))"

text \<open>\<open>http.Error\<close>: the status code, then the message and a newline as the body.\<close>

definition http_Error :: "string \<Rightarrow> nat \<Rightarrow> ResponseWriter \<Rightarrow> ResponseWriter" where
  "http_Error error code w = snd (Write (error @ [CHR 0x0A]) (WriteHeader code w))"

text \<open>
  The middle of \<open>serve\<close>, from the decoding of the body to the correlation of the
  reply: the value of \<open>admissionReview\<close> that is handed to the encoder. \<open>Decode\<close> stands
  for \<open>deserializer.Decode\<close> into \<open>ar\<close>: it returns the error, if any, and the state of
  \<open>ar\<close> after the call.
\<close>

definition serve_admissionReview ::
  "(string \<Rightarrow> string option \<times> AdmissionReview) \<Rightarrow> (string \<Rightarrow> string + Secret) \<Rightarrow>
   string \<Rightarrow> string \<Rightarrow> panic + AdmissionReview" where
  "serve_admissionReview Decode Unmarshal body path =
     (case Decode body of (err, ar) \<Rightarrow>
        (case (case err of
                 Some e \<Rightarrow>
                   Inr (Some (AdmissionResponse_zero\<lparr>Result := Some \<lparr>Message = e\<rparr>\<rparr>))
               | None \<Rightarrow>
                   if path = ''/mutate'' then
                     (case mutate Unmarshal ar of
                        Inl p \<Rightarrow> Inl p
                      | Inr resp \<Rightarrow> Inr (Some resp))
                   else Inr None) of
           Inl p \<Rightarrow> Inl p
         | Inr admissionResponse \<Rightarrow>
             Inr (case admissionResponse of
                    None \<Rightarrow> AdmissionReview_zero
                  | Some resp \<Rightarrow>
                      AdmissionReview_zero
                        \<lparr>Response :=
                           Some (case Request ar of
                                   None \<Rightarrow> resp
                                 | Some req \<Rightarrow> resp\<lparr>UID := req_UID req\<rparr>)\<rparr>)))"

text \<open>
  The end of \<open>serve\<close>: encode and write. \<open>Marshal\<close> stands for \<open>json.Marshal\<close> on the
  review. After an encoding error the code does not return: it goes on to write the
  empty \<open>resp\<close>.
\<close>

definition serve_respond ::
  "(AdmissionReview \<Rightarrow> string + string) \<Rightarrow> AdmissionReview \<Rightarrow> ResponseWriter \<Rightarrow> ResponseWriter" where
  "serve_respond Marshal admissionReview w =
     (case (case Marshal admissionReview of
              Inl err \<Rightarrow>
                ([], http_Error (''could not encode response: '' @ err)
                       StatusInternalServerError w)
            | Inr bytes \<Rightarrow> (bytes, w)) of
        (resp, w1) \<Rightarrow>
          (case Write resp w1 of
             (None, w2) \<Rightarrow> w2
           | (Some err, w2) \<Rightarrow>
               http_Error (''could not write response: '' @ err)
                 StatusInternalServerError w2))"

definition serve ::
  "(string \<Rightarrow> string option \<times> AdmissionReview) \<Rightarrow> (string \<Rightarrow> string + Secret) \<Rightarrow>
   (AdmissionReview \<Rightarrow> string + string) \<Rightarrow> http_Request \<Rightarrow> ResponseWriter \<Rightarrow>
   panic + ResponseWriter" where
  "serve Decode Unmarshal Marshal r w =
     (let body = (case Body r of
                    None \<Rightarrow> []
                  | Some (Inl err) \<Rightarrow> []
                  | Some (Inr data) \<Rightarrow> data)
      in if length body = 0 then
           Inr (http_Error ''empty body'' StatusBadRequest w)
         else
           (let contentType = Header_Get (Header r) ''Content-Type'' in
            if contentType \<noteq> ''application/json'' then
              Inr (http_Error ''invalid Content-Type, expect `application/json`''
                     StatusUnsupportedMediaType w)
            else
              (case serve_admissionReview Decode Unmarshal body (URL_Path r) of
                 Inl p \<Rightarrow> Inl p
               | Inr admissionReview \<Rightarrow> Inr (serve_respond Marshal admissionReview w))))"

section \<open>Example inputs\<close>

text \<open>
  Concrete inputs on which the theorems below are evaluated. The three functions are
  small stand-ins for the JSON codecs of the libraries: \<open>example_Decode\<close> rejects the
  body \<open>bad\<close> and otherwise returns a review whose request carries the body as its raw
  object; \<open>example_Unmarshal\<close> accepts the raw objects \<open>default\<close> and \<open>kube-system\<close> as
  secrets of these namespaces; \<open>example_Marshal\<close> renders the correlation identifier,
  the allowed flag and the status message of a review.
\<close>

definition example_review :: "string \<Rightarrow> AdmissionReview" where
  "example_review raw =
     \<lparr>Request = Some \<lparr>req_UID = ''uid-1'', req_Kind = ''Secret'', req_Namespace = ''default'',
                       req_Name = ''tls'', req_Operation = ''CREATE'', Object_Raw = raw\<rparr>,
      Response = None\<rparr>"

definition example_Decode :: "string \<Rightarrow> string option \<times> AdmissionReview" where
  "example_Decode body =
     (if body = ''bad'' then (Some ''no kind or version'', AdmissionReview_zero)
      else (None, example_review body))"

definition example_secret :: "string \<Rightarrow> Secret" where
  "example_secret namespace =
     \<lparr>ObjectMeta = \<lparr>Name = ''tls'', Namespace = namespace, Labels = None,
                     Annotations = Some [''app'' \<mapsto> ''web'']\<rparr>\<rparr>"

definition example_Unmarshal :: "string \<Rightarrow> string + Secret" where
  "example_Unmarshal raw =
     (if raw = ''default'' \<or> raw = ''kube-system'' then Inr (example_secret raw)
      else Inl ''unexpected end of JSON input'')"

definition example_Marshal :: "AdmissionReview \<Rightarrow> string + string" where
  \<open>example_Marshal review =
     Inr (case Response review of
            None \<Rightarrow> ''{}''
          | Some resp \<Rightarrow>
              ''{"response":{"uid":"'' @ UID resp @ ''","allowed":'' @
              (if Allowed resp then ''true'' else ''false'') @
              (case Result resp of
                 None \<Rightarrow> []
               | Some st \<Rightarrow> '',"status":{"message":"'' @ Message st @ ''"}'') @
              ''}}'')\<close>

definition example_request :: "string \<Rightarrow> string \<Rightarrow> string \<Rightarrow> http_Request" where
  "example_request body contentType path =
     \<lparr>Body = Some (Inr body), Header = [''Content-Type'' \<mapsto> [contentType]], URL_Path = path\<rparr>"

definition example_writer :: ResponseWriter where
  "example_writer = \<lparr>status = None, written = [], WriteErr = None\<rparr>"

section \<open>Properties of the policy\<close>

lemma admissionRequired_iff:
  "admissionRequired ignoredList metadata \<longleftrightarrow> Namespace metadata \<notin> set ignoredList"
  by (induction ignoredList) auto

text \<open>
  C1. Outside the ignored namespaces \<open>mutationRequired\<close> is \<open>True\<close> (mutate) when the
  object has no \<open>cert-manager.io/certificate-name\<close> annotation, \<open>True\<close> when it has that
  annotation and no \<open>kubed.appscode.com/origin\<close> annotation, and \<open>False\<close> (skip) when it
  has both. An object without annotations counts as one with an empty map.
\<close>

theorem mutationRequired_outside_ignored:
  assumes "Namespace metadata \<notin> set ignoredNamespaces"
  shows "mutationRequired ignoredNamespaces metadata =
     (case Annotations metadata of
        None \<Rightarrow> True
      | Some m \<Rightarrow>
          (if m certManagerAnnotationKey = None then True
           else if m originAnnotationKey = None then True
           else False))"
  using assms
  by (simp add: mutationRequired_def admissionRequired_iff has_key_def Let_def
      split: option.splits)

theorem mutationRequired_outside_ignored_witness:
  "Namespace \<lparr>Name = ''tls'', Namespace = ''default'', Labels = None,
      Annotations = Some [''cert-manager.io/certificate-name'' \<mapsto> ''tls'',
                          ''kubed.appscode.com/origin'' \<mapsto> ''a''] \<rparr>
     \<notin> set ignoredNamespaces \<and>
   \<not> mutationRequired ignoredNamespaces
     \<lparr>Name = ''tls'', Namespace = ''default'', Labels = None,
      Annotations = Some [''cert-manager.io/certificate-name'' \<mapsto> ''tls'',
                          ''kubed.appscode.com/origin'' \<mapsto> ''a''] \<rparr>"
  using mutationRequired_outside_ignored
    [of "\<lparr>Name = ''tls'', Namespace = ''default'', Labels = None,
         Annotations = Some [''cert-manager.io/certificate-name'' \<mapsto> ''tls'',
                             ''kubed.appscode.com/origin'' \<mapsto> ''a''] \<rparr>"]
  by (simp add: ignoredNamespaces_def NamespaceSystem_def NamespacePublic_def
      certManagerAnnotationKey_def originAnnotationKey_def)

text \<open>
  C2. In an ignored namespace (\<open>kube-system\<close>, \<open>kube-public\<close>) \<open>mutationRequired\<close> is
  \<open>False\<close> (skip) whatever the annotations are, the certificate annotation included.
\<close>

theorem mutationRequired_ignored_namespace:
  assumes "Namespace metadata \<in> set ignoredNamespaces"
  shows "\<not> mutationRequired ignoredNamespaces metadata"
  using assms
  by (simp add: mutationRequired_def admissionRequired_iff Let_def)

theorem mutationRequired_ignored_namespace_witness:
  "Namespace \<lparr>Name = ''tls'', Namespace = ''kube-system'', Labels = None,
      Annotations = Some [''cert-manager.io/certificate-name'' \<mapsto> ''tls''] \<rparr>
     \<in> set ignoredNamespaces \<and>
   \<not> mutationRequired ignoredNamespaces
     \<lparr>Name = ''tls'', Namespace = ''kube-system'', Labels = None,
      Annotations = Some [''cert-manager.io/certificate-name'' \<mapsto> ''tls''] \<rparr>"
  using mutationRequired_ignored_namespace
    [of "\<lparr>Name = ''tls'', Namespace = ''kube-system'', Labels = None,
         Annotations = Some [''cert-manager.io/certificate-name'' \<mapsto> ''tls''] \<rparr>"]
  by (simp add: ignoredNamespaces_def NamespaceSystem_def NamespacePublic_def)

section \<open>Properties of the patch builder\<close>

lemma updateAnnotation_loop_acc:
  "updateAnnotation_loop target patch added = patch @ updateAnnotation_loop target [] added"
proof (induction added arbitrary: target patch)
  case Nil
  then show ?case by simp
next
  case (Cons a added)
  obtain key val where a: "a = (key, val)" by (cases a)
  show ?case
    unfolding a
    by (simp add: Cons.IH [of _ "patch @ _"] Cons.IH [of _ "[_]"])
qed

lemma updateAnnotation_loop_length:
  "length (updateAnnotation_loop target patch added) = length patch + length added"
  by (induction target patch added rule: updateAnnotation_loop.induct) auto

lemma index_map_empty [simp]: "index_map (Some Map.empty) key = []"
  by (simp add: index_map_def)

lemma is_nil_index_map: "is_nil target \<Longrightarrow> index_map target key = []"
  by (cases target) (simp_all add: is_nil_def index_map_def)

lemma updateAnnotation_loop_Cons:
  "updateAnnotation_loop target [] ((key, val) # added) =
     (if index_map target key = [] then
        \<lparr>Op = ''add'', Path = ''/metadata/annotations'', Value = MapValue key val\<rparr>
          # updateAnnotation_loop (Some Map.empty) [] added
      else
        \<lparr>Op = ''replace'', Path = ''/metadata/annotations/'' @ key, Value = StringValue val\<rparr>
          # updateAnnotation_loop target [] added)"
  using updateAnnotation_loop_acc [of _ "[_]" added]
  by (auto simp: is_nil_index_map)

lemma loop_all_add:
  "i < length added \<Longrightarrow>
   updateAnnotation_loop (Some Map.empty) [] added ! i =
     \<lparr>Op = ''add'', Path = ''/metadata/annotations'',
      Value = MapValue (fst (added ! i)) (snd (added ! i))\<rparr>"
proof (induction added arbitrary: i)
  case Nil
  then show ?case by simp
next
  case (Cons a added)
  obtain key val where a: "a = (key, val)" by (cases a)
  show ?case
  proof (cases i)
    case 0
    then show ?thesis by (simp add: a updateAnnotation_loop_Cons del: updateAnnotation_loop.simps)
  next
    case (Suc j)
    with Cons.prems have "j < length added" by simp
    from Cons.IH [OF this] show ?thesis
      by (simp add: a Suc updateAnnotation_loop_Cons del: updateAnnotation_loop.simps)
  qed
qed

lemma loop_add_at:
  "i < length added \<Longrightarrow> index_map target (fst (added ! i)) = [] \<Longrightarrow>
   updateAnnotation_loop target [] added ! i =
     \<lparr>Op = ''add'', Path = ''/metadata/annotations'',
      Value = MapValue (fst (added ! i)) (snd (added ! i))\<rparr>"
proof (induction added arbitrary: i)
  case Nil
  then show ?case by simp
next
  case (Cons a added)
  obtain key val where a: "a = (key, val)" by (cases a)
  show ?case
  proof (cases i)
    case 0
    with Cons.prems show ?thesis by (simp add: a updateAnnotation_loop_Cons del: updateAnnotation_loop.simps)
  next
    case (Suc j)
    with Cons.prems have j: "j < length added" "index_map target (fst (added ! j)) = []"
      by simp_all
    show ?thesis
      using Cons.IH [OF j] loop_all_add [OF j(1)]
      by (simp add: a Suc updateAnnotation_loop_Cons del: updateAnnotation_loop.simps)
  qed
qed





text \<open>
  C5. A key that is missing from the existing annotations or empty there, and any key
  when the existing annotations are \<open>nil\<close> or empty, gets an \<open>add\<close> at the path of the
  whole annotations object with the one-entry map \<open>{key: value}\<close> as its value. The
  result has one operation for each entry of \<open>added\<close>, in the order of the visit. In
  particular the existing \<open>{}\<close> and the desired \<open>{k: v}\<close> give exactly one such \<open>add\<close>.
\<close>

theorem updateAnnotation_add:
  "(i < length added \<and>
    (target = None \<or>
     (\<exists>m. target = Some m \<and>
        (m (fst (added ! i)) = None \<or> m (fst (added ! i)) = Some []))) \<longrightarrow>
      updateAnnotation target added ! i =
        \<lparr>Op = ''add'', Path = ''/metadata/annotations'',
         Value = MapValue (fst (added ! i)) (snd (added ! i))\<rparr> \<and>
      length (updateAnnotation target added) = length added) \<and>
   updateAnnotation (Some Map.empty) [(''k'', ''v'')] =
     [\<lparr>Op = ''add'', Path = ''/metadata/annotations'', Value = MapValue ''k'' ''v''\<rparr>]"
proof (intro conjI impI)
  assume a: "i < length added \<and>
    (target = None \<or>
     (\<exists>m. target = Some m \<and>
        (m (fst (added ! i)) = None \<or> m (fst (added ! i)) = Some [])))"
  then have "index_map target (fst (added ! i)) = []"
    by (auto simp: index_map_def)
  with a show "updateAnnotation target added ! i =
        \<lparr>Op = ''add'', Path = ''/metadata/annotations'',
         Value = MapValue (fst (added ! i)) (snd (added ! i))\<rparr>"
    by (simp add: updateAnnotation_def loop_add_at)
  show "length (updateAnnotation target added) = length added"
    by (simp add: updateAnnotation_def updateAnnotation_loop_length)
next
  show "updateAnnotation (Some Map.empty) [(''k'', ''v'')] =
     [\<lparr>Op = ''add'', Path = ''/metadata/annotations'', Value = MapValue ''k'' ''v''\<rparr>]"
    by (simp add: updateAnnotation_def index_map_def is_nil_def)
qed

theorem updateAnnotation_add_witness:
  "1 < length [(''a'', ''x''), (''b'', ''y'')] \<and>
   [''a'' \<mapsto> ''1'', ''b'' \<mapsto> []] (fst ([(''a'', ''x''), (''b'', ''y'')] ! 1)) = Some [] \<and>
   updateAnnotation (Some [''a'' \<mapsto> ''1'', ''b'' \<mapsto> []]) [(''a'', ''x''), (''b'', ''y'')] ! 1 =
     \<lparr>Op = ''add'', Path = ''/metadata/annotations'', Value = MapValue ''b'' ''y''\<rparr>"
  using updateAnnotation_add
    [of 1 "[(''a'', ''x''), (''b'', ''y'')]" "Some [''a'' \<mapsto> ''1'', ''b'' \<mapsto> []]"]
  by simp

section \<open>Properties of the mutation handler\<close>

lemma createPatch_sync:
  \<open>createPatch None [(syncAnnotationKey, ''true'')] =
     Inr ''[{"op":"add","path":"/metadata/annotations","value":{"kubed.appscode.com/sync":"true"}}]''\<close>
  by (simp add: createPatch_def updateAnnotation_def is_nil_def json_Marshal_def
      json_patchOperation_def json_string_def json_escape_char_def syncAnnotationKey_def)

lemma mutate_cases:
  assumes "mutate Unmarshal ar = Inr resp"
  obtains req where "Request ar = Some req"
    and "(\<exists>err. Unmarshal (Object_Raw req) = Inl err \<and>
            resp = AdmissionResponse_zero\<lparr>Result := Some \<lparr>Message = err\<rparr>\<rparr>) \<or>
         (\<exists>secret. Unmarshal (Object_Raw req) = Inr secret \<and>
            \<not> mutationRequired ignoredNamespaces (ObjectMeta secret) \<and>
            resp = AdmissionResponse_zero\<lparr>Allowed := True\<rparr>) \<or>
         (\<exists>secret patchBytes. Unmarshal (Object_Raw req) = Inr secret \<and>
            mutationRequired ignoredNamespaces (ObjectMeta secret) \<and>
            resp = AdmissionResponse_zero\<lparr>Allowed := True, Patch := Some patchBytes,
                               PatchType := Some PatchTypeJSONPatch\<rparr>)"
  using assms
  by (auto simp: mutate_def createPatch_def json_Marshal_def Let_def
      split: option.splits sum.splits if_splits list.splits)

lemma mutate_patch_allowed:
  assumes "mutate Unmarshal ar = Inr resp" and "Patch resp \<noteq> None"
  shows "Allowed resp \<and> PatchType resp = Some PatchTypeJSONPatch \<and>
     (\<exists>req secret. Request ar = Some req \<and> Unmarshal (Object_Raw req) = Inr secret \<and>
        mutationRequired ignoredNamespaces (ObjectMeta secret))"
  using assms
  by (elim mutate_cases) (auto simp: AdmissionResponse_zero_def)

lemma example_default_required:
  "mutationRequired ignoredNamespaces (ObjectMeta (example_secret ''default''))"
  by (simp add: mutationRequired_def example_secret_def ignoredNamespaces_def
      NamespaceSystem_def NamespacePublic_def has_key_def certManagerAnnotationKey_def)

lemma example_default_mutate:
  \<open>mutate example_Unmarshal (example_review ''default'') =
      Inr \<lparr>UID = [], Allowed = True, Result = None,
           Patch = Some ''[{"op":"add","path":"/metadata/annotations","value":{"kubed.appscode.com/sync":"true"}}]'',
           PatchType = Some ''JSONPatch''\<rparr>\<close>
  using example_default_required
  by (simp add: mutate_def example_review_def example_Unmarshal_def createPatch_sync
      AdmissionResponse_zero_def PatchTypeJSONPatch_def)

text \<open>
  C4. When the review has a request whose raw object decodes to a secret for which
  \<open>mutationRequired\<close> holds, \<open>mutate\<close> returns a response with \<open>Allowed\<close> set whose
  patch is exactly the one-element JSON patch that adds
  \<open>{"kubed.appscode.com/sync":"true"}\<close> at \<open>/metadata/annotations\<close>, whatever the
  annotations of the secret are: the builder is given a \<open>nil\<close> map of existing
  annotations, so it takes the \<open>add\<close> branch.
\<close>

theorem mutate_patch:
  assumes "Request ar = Some req"
    and "Unmarshal (Object_Raw req) = Inr secret"
    and "mutationRequired ignoredNamespaces (ObjectMeta secret)"
  shows \<open>mutate Unmarshal ar =
      Inr \<lparr>UID = [], Allowed = True, Result = None,
           Patch = Some ''[{"op":"add","path":"/metadata/annotations","value":{"kubed.appscode.com/sync":"true"}}]'',
           PatchType = Some ''JSONPatch''\<rparr> \<and>
    updateAnnotation None [(syncAnnotationKey, ''true'')] =
      [\<lparr>Op = ''add'', Path = ''/metadata/annotations'',
        Value = MapValue ''kubed.appscode.com/sync'' ''true''\<rparr>]\<close>
proof
  show \<open>mutate Unmarshal ar =
      Inr \<lparr>UID = [], Allowed = True, Result = None,
           Patch = Some ''[{"op":"add","path":"/metadata/annotations","value":{"kubed.appscode.com/sync":"true"}}]'',
           PatchType = Some ''JSONPatch''\<rparr>\<close>
    using assms
    by (simp add: mutate_def createPatch_sync AdmissionResponse_zero_def PatchTypeJSONPatch_def)
  show "updateAnnotation None [(syncAnnotationKey, ''true'')] =
      [\<lparr>Op = ''add'', Path = ''/metadata/annotations'',
        Value = MapValue ''kubed.appscode.com/sync'' ''true''\<rparr>]"
    by (simp add: updateAnnotation_def is_nil_def syncAnnotationKey_def)
qed

theorem mutate_patch_witness:
  \<open>Request (example_review ''default'') =
     Some \<lparr>req_UID = ''uid-1'', req_Kind = ''Secret'', req_Namespace = ''default'',
                       req_Name = ''tls'', req_Operation = ''CREATE'', Object_Raw = ''default''\<rparr> \<and>
   example_Unmarshal ''default'' = Inr (example_secret ''default'') \<and>
   mutationRequired ignoredNamespaces (ObjectMeta (example_secret ''default'')) \<and>
   mutate example_Unmarshal (example_review ''default'') =
      Inr \<lparr>UID = [], Allowed = True, Result = None,
           Patch = Some ''[{"op":"add","path":"/metadata/annotations","value":{"kubed.appscode.com/sync":"true"}}]'',
           PatchType = Some ''JSONPatch''\<rparr>\<close>
proof -
  note m = example_default_required
  show ?thesis
    using m mutate_patch [of "example_review ''default''" _ example_Unmarshal "example_secret ''default''"]
    by (simp add: example_review_def example_Unmarshal_def)
qed

section \<open>Properties of the HTTP handler\<close>

lemma serve_decoded:
  assumes "Body r = Some (Inr body)" and "body \<noteq> []"
    and "Header_Get (Header r) ''Content-Type'' = ''application/json''"
  shows "serve Decode Unmarshal Marshal r w =
     (case serve_admissionReview Decode Unmarshal body (URL_Path r) of
        Inl p \<Rightarrow> Inl p
      | Inr admissionReview \<Rightarrow> Inr (serve_respond Marshal admissionReview w))"
  using assms by (simp add: serve_def)

lemma serve_respond_ok:
  assumes "Marshal review = Inr bytes" and "WriteErr w = None" and "status w = None"
  shows "serve_respond Marshal review w = w\<lparr>status := Some StatusOK, written := written w @ bytes\<rparr>"
  using assms by (simp add: serve_respond_def Write_def WriteHeader_def)

lemma http_Error_fresh:
  assumes "status w = None"
  shows "http_Error msg code w =
     (case WriteErr w of
        None \<Rightarrow> w\<lparr>status := Some code, written := written w @ msg @ [CHR 0x0A]\<rparr>
      | Some err \<Rightarrow> w\<lparr>status := Some code\<rparr>)"
  using assms by (simp add: http_Error_def Write_def WriteHeader_def split: option.splits)

lemma serve_admissionReview_response:
  assumes "serve_admissionReview Decode Unmarshal body path = Inr review"
    and "Response review = Some resp"
  shows "(\<exists>e ar. Decode body = (Some e, ar) \<and>
            resp = (case Request ar of
                      None \<Rightarrow> AdmissionResponse_zero\<lparr>Result := Some \<lparr>Message = e\<rparr>\<rparr>
                    | Some req \<Rightarrow> AdmissionResponse_zero
                        \<lparr>Result := Some \<lparr>Message = e\<rparr>, UID := req_UID req\<rparr>)) \<or>
         (\<exists>ar req resp0. Decode body = (None, ar) \<and> path = ''/mutate'' \<and>
            Request ar = Some req \<and> mutate Unmarshal ar = Inr resp0 \<and>
            resp = resp0\<lparr>UID := req_UID req\<rparr>)"
proof (cases "Decode body")
  case (Pair err ar)
  show ?thesis
  proof (cases err)
    case None
    with Pair assms obtain resp0 where p: "path = ''/mutate''"
      and m: "mutate Unmarshal ar = Inr resp0"
      and r: "resp = (case Request ar of None \<Rightarrow> resp0 | Some req \<Rightarrow> resp0\<lparr>UID := req_UID req\<rparr>)"
      by (auto simp: serve_admissionReview_def AdmissionReview_zero_def
          split: if_splits sum.splits)
    from m obtain req where "Request ar = Some req" by (rule mutate_cases)
    with Pair None p m r show ?thesis by simp
  next
    case (Some e)
    with Pair assms show ?thesis
      by (auto simp: serve_admissionReview_def AdmissionReview_zero_def split: option.splits)
  qed
qed

text \<open>
  C6. When the body of a request decodes without error and \<open>serve\<close> builds a review
  with a response, the review that was decoded has a request and the \<open>UID\<close> of the
  response is the \<open>UID\<close> of that request. \<open>serve\<close> hands exactly this review to the
  encoder, and when the encoding succeeds on a fresh, working connection the bytes
  written are that encoding, so a decoder that inverts the encoder reads the request's
  identifier back.
\<close>

theorem serve_echoes_UID:
  assumes "Body r = Some (Inr body)" and "body \<noteq> []"
    and "Header_Get (Header r) ''Content-Type'' = ''application/json''"
    and "Decode body = (None, ar)"
    and "serve_admissionReview Decode Unmarshal body (URL_Path r) = Inr review"
    and "Response review = Some resp"
  shows "\<exists>req. Request ar = Some req \<and> UID resp = req_UID req \<and>
     serve Decode Unmarshal Marshal r w = Inr (serve_respond Marshal review w) \<and>
     (\<forall>bytes. Marshal review = Inr bytes \<and> WriteErr w = None \<and> status w = None \<longrightarrow>
        serve_respond Marshal review w =
          w\<lparr>status := Some StatusOK, written := written w @ bytes\<rparr>)"
proof -
  from serve_admissionReview_response [OF assms(5,6)] assms(4)
  obtain req resp0 where "Request ar = Some req" and "resp = resp0\<lparr>UID := req_UID req\<rparr>"
    by auto
  moreover have "serve Decode Unmarshal Marshal r w = Inr (serve_respond Marshal review w)"
    using assms(1-3,5) by (simp add: serve_decoded)
  ultimately show ?thesis
    by (simp add: serve_respond_ok)
qed

theorem serve_echoes_UID_witness:
  \<open>Body (example_request ''default'' ''application/json'' ''/mutate'') = Some (Inr ''default'') \<and>
   ''default'' \<noteq> [] \<and>
   Header_Get (Header (example_request ''default'' ''application/json'' ''/mutate''))
     ''Content-Type'' = ''application/json'' \<and>
   example_Decode ''default'' = (None, example_review ''default'') \<and>
   serve_admissionReview example_Decode example_Unmarshal ''default''
     (URL_Path (example_request ''default'' ''application/json'' ''/mutate'')) =
     Inr \<lparr>Request = None,
          Response = Some \<lparr>UID = ''uid-1'', Allowed = True, Result = None,
            Patch = Some ''[{"op":"add","path":"/metadata/annotations","value":{"kubed.appscode.com/sync":"true"}}]'',
            PatchType = Some ''JSONPatch''\<rparr>\<rparr> \<and>
   serve example_Decode example_Unmarshal example_Marshal
     (example_request ''default'' ''application/json'' ''/mutate'') example_writer =
     Inr \<lparr>status = Some 200, written = ''{"response":{"uid":"uid-1","allowed":true}}'',
          WriteErr = None\<rparr>\<close>
proof -
  note m = example_default_required
  have d: "example_Decode ''default'' = (None, example_review ''default'')"
    by (simp add: example_Decode_def)
  note mu = example_default_mutate
  have s: \<open>serve_admissionReview example_Decode example_Unmarshal ''default'' ''/mutate'' =
     Inr \<lparr>Request = None,
          Response = Some \<lparr>UID = ''uid-1'', Allowed = True, Result = None,
            Patch = Some ''[{"op":"add","path":"/metadata/annotations","value":{"kubed.appscode.com/sync":"true"}}]'',
            PatchType = Some ''JSONPatch''\<rparr>\<rparr>\<close>
    by (simp add: serve_admissionReview_def d mu AdmissionReview_zero_def)
      (simp add: example_review_def)
  show ?thesis
    using d s serve_echoes_UID
      [where r = "example_request ''default'' ''application/json'' ''/mutate''"
         and body = "''default''" and Decode = example_Decode
         and ar = "example_review ''default''" and Unmarshal = example_Unmarshal
         and review = \<open>\<lparr>Request = None,
           Response = Some \<lparr>UID = ''uid-1'', Allowed = True, Result = None,
             Patch = Some ''[{"op":"add","path":"/metadata/annotations","value":{"kubed.appscode.com/sync":"true"}}]'',
             PatchType = Some ''JSONPatch''\<rparr>\<rparr>\<close>
         and resp = \<open>\<lparr>UID = ''uid-1'', Allowed = True, Result = None,
             Patch = Some ''[{"op":"add","path":"/metadata/annotations","value":{"kubed.appscode.com/sync":"true"}}]'',
             PatchType = Some ''JSONPatch''\<rparr>\<close>
         and Marshal = example_Marshal and w = example_writer]
    by (clarsimp simp: example_request_def Header_Get_def example_writer_def
        example_Marshal_def StatusOK_def)
qed




text \<open>
  C8. On a fresh response writer, a request whose body is absent, unreadable or empty
  gets status 400 and the text \<open>empty body\<close>; a request with a non-empty body whose
  \<open>Content-Type\<close> is not \<open>application/json\<close> gets status 415 and the text of the
  content-type error. In both cases the reply depends on neither decoder nor encoder: no
  review is built or written.
\<close>

theorem serve_transport_errors:
  assumes "status w = None"
  shows "((Body r = None \<or> (\<exists>err. Body r = Some (Inl err)) \<or> Body r = Some (Inr [])) \<longrightarrow>
      serve Decode Unmarshal Marshal r w =
        Inr (case WriteErr w of
               None \<Rightarrow> w\<lparr>status := Some 400, written := written w @ ''empty body'' @ [CHR 0x0A]\<rparr>
             | Some err \<Rightarrow> w\<lparr>status := Some 400\<rparr>)) \<and>
    ((\<exists>body. Body r = Some (Inr body) \<and> body \<noteq> []) \<and>
     Header_Get (Header r) ''Content-Type'' \<noteq> ''application/json'' \<longrightarrow>
      serve Decode Unmarshal Marshal r w =
        Inr (case WriteErr w of
               None \<Rightarrow> w\<lparr>status := Some 415,
                          written := written w @
                            ''invalid Content-Type, expect `application/json`'' @ [CHR 0x0A]\<rparr>
             | Some err \<Rightarrow> w\<lparr>status := Some 415\<rparr>))"
proof (intro conjI impI)
  assume "Body r = None \<or> (\<exists>err. Body r = Some (Inl err)) \<or> Body r = Some (Inr [])"
  then have "serve Decode Unmarshal Marshal r w =
      Inr (http_Error ''empty body'' StatusBadRequest w)"
    by (auto simp: serve_def)
  then show "serve Decode Unmarshal Marshal r w =
        Inr (case WriteErr w of
               None \<Rightarrow> w\<lparr>status := Some 400, written := written w @ ''empty body'' @ [CHR 0x0A]\<rparr>
             | Some err \<Rightarrow> w\<lparr>status := Some 400\<rparr>)"
    by (simp add: http_Error_fresh [OF assms] StatusBadRequest_def)
next
  assume "(\<exists>body. Body r = Some (Inr body) \<and> body \<noteq> []) \<and>
     Header_Get (Header r) ''Content-Type'' \<noteq> ''application/json''"
  then have "serve Decode Unmarshal Marshal r w =
      Inr (http_Error ''invalid Content-Type, expect `application/json`''
             StatusUnsupportedMediaType w)"
    by (auto simp: serve_def)
  then show "serve Decode Unmarshal Marshal r w =
        Inr (case WriteErr w of
               None \<Rightarrow> w\<lparr>status := Some 415,
                          written := written w @
                            ''invalid Content-Type, expect `application/json`'' @ [CHR 0x0A]\<rparr>
             | Some err \<Rightarrow> w\<lparr>status := Some 415\<rparr>)"
    by (simp add: http_Error_fresh [OF assms] StatusUnsupportedMediaType_def)
qed

theorem serve_transport_errors_witness:
  "status example_writer = None \<and>
   Body (example_request [] ''application/json'' ''/mutate'') = Some (Inr []) \<and>
   serve example_Decode example_Unmarshal example_Marshal
     (example_request [] ''application/json'' ''/mutate'') example_writer =
     Inr \<lparr>status = Some 400, written = ''empty body'' @ [CHR 0x0A], WriteErr = None\<rparr> \<and>
   Body (example_request ''default'' ''text/plain'' ''/mutate'') = Some (Inr ''default'') \<and>
   ''default'' \<noteq> [] \<and>
   Header_Get (Header (example_request ''default'' ''text/plain'' ''/mutate'')) ''Content-Type''
     \<noteq> ''application/json'' \<and>
   serve example_Decode example_Unmarshal example_Marshal
     (example_request ''default'' ''text/plain'' ''/mutate'') example_writer =
     Inr \<lparr>status = Some 415,
          written = ''invalid Content-Type, expect `application/json`'' @ [CHR 0x0A],
          WriteErr = None\<rparr>"
proof -
  have f: "status example_writer = None"
    by (simp add: example_writer_def)
  show ?thesis
    using f
      serve_transport_errors [OF f, of "example_request [] ''application/json'' ''/mutate''"
        example_Decode example_Unmarshal example_Marshal]
      serve_transport_errors [OF f, of "example_request ''default'' ''text/plain'' ''/mutate''"
        example_Decode example_Unmarshal example_Marshal]
    by (simp add: example_request_def example_writer_def Header_Get_def)
qed

text \<open>
  C10. For a request with a non-empty body of type \<open>application/json\<close> that decodes
  without error and whose path is not \<open>/mutate\<close>, the review that \<open>serve\<close> encodes is
  the zero value: it has no response, hence no allowed flag, patch, status message or
  correlation identifier.
\<close>

theorem serve_other_path:
  assumes "Body r = Some (Inr body)" and "body \<noteq> []"
    and "Header_Get (Header r) ''Content-Type'' = ''application/json''"
    and "Decode body = (None, ar)"
    and "URL_Path r \<noteq> ''/mutate''"
  shows "serve_admissionReview Decode Unmarshal body (URL_Path r) =
       Inr \<lparr>Request = None, Response = None\<rparr> \<and>
     serve Decode Unmarshal Marshal r w =
       Inr (serve_respond Marshal \<lparr>Request = None, Response = None\<rparr> w)"
proof -
  have "serve_admissionReview Decode Unmarshal body (URL_Path r) =
       Inr \<lparr>Request = None, Response = None\<rparr>"
    using assms(4,5) by (simp add: serve_admissionReview_def AdmissionReview_zero_def)
  then show ?thesis
    using assms(1-3) by (simp add: serve_decoded)
qed

theorem serve_other_path_witness:
  "Body (example_request ''default'' ''application/json'' ''/validate'') = Some (Inr ''default'') \<and>
   ''default'' \<noteq> [] \<and>
   Header_Get (Header (example_request ''default'' ''application/json'' ''/validate''))
     ''Content-Type'' = ''application/json'' \<and>
   example_Decode ''default'' = (None, example_review ''default'') \<and>
   URL_Path (example_request ''default'' ''application/json'' ''/validate'') \<noteq> ''/mutate'' \<and>
   serve example_Decode example_Unmarshal example_Marshal
     (example_request ''default'' ''application/json'' ''/validate'') example_writer =
     Inr \<lparr>status = Some 200, written = ''{}'', WriteErr = None\<rparr>"
proof -
  have d: "example_Decode ''default'' = (None, example_review ''default'')"
    by (simp add: example_Decode_def)
  show ?thesis
    using d serve_other_path
      [where r = "example_request ''default'' ''application/json'' ''/validate''"
         and body = "''default''" and Decode = example_Decode
         and ar = "example_review ''default''" and Unmarshal = example_Unmarshal
         and Marshal = example_Marshal and w = example_writer]
    by (simp add: example_request_def Header_Get_def serve_respond_def example_Marshal_def
        Write_def WriteHeader_def example_writer_def StatusOK_def)
qed

text \<open>
  C9. A response that carries a patch has \<open>Allowed\<close> set and the patch type
  \<open>JSONPatch\<close>, and it comes from a secret that decoded and for which
  \<open>mutationRequired\<close> holds. This holds for the responses \<open>mutate\<close> returns and for the
  responses inside the reviews that \<open>serve\<close> encodes.
\<close>

theorem patch_only_when_allowed:
  "(mutate Unmarshal ar = Inr resp \<and> Patch resp \<noteq> None \<longrightarrow>
      Allowed resp \<and> PatchType resp = Some PatchTypeJSONPatch \<and>
      (\<exists>req secret. Request ar = Some req \<and> Unmarshal (Object_Raw req) = Inr secret \<and>
         mutationRequired ignoredNamespaces (ObjectMeta secret))) \<and>
   (serve_admissionReview Decode Unmarshal body path = Inr review \<and>
    Response review = Some resp' \<and> Patch resp' \<noteq> None \<longrightarrow>
      Allowed resp' \<and> PatchType resp' = Some PatchTypeJSONPatch \<and>
      (\<exists>ar' req secret. Decode body = (None, ar') \<and> path = ''/mutate'' \<and>
         Request ar' = Some req \<and> Unmarshal (Object_Raw req) = Inr secret \<and>
         mutationRequired ignoredNamespaces (ObjectMeta secret)))"
  (is "(?M \<longrightarrow> ?MC) \<and> (?S \<longrightarrow> ?SC)")
proof -
  have of_mutate: "?M \<longrightarrow> ?MC"
  proof
    assume ?M
    then have "mutate Unmarshal ar = Inr resp" and "Patch resp \<noteq> None"
      by simp_all
    then show ?MC by (rule mutate_patch_allowed)
  qed
  have of_serve: "?S \<longrightarrow> ?SC"
  proof
    assume a: ?S
    then have p: "Patch resp' \<noteq> None" by simp
    from a serve_admissionReview_response [of Decode Unmarshal body path review resp']
    consider
      (decode) e ar' where "Decode body = (Some e, ar')"
        "resp' = (case Request ar' of
                    None \<Rightarrow> AdmissionResponse_zero\<lparr>Result := Some \<lparr>Message = e\<rparr>\<rparr>
                  | Some req \<Rightarrow> AdmissionResponse_zero
                      \<lparr>Result := Some \<lparr>Message = e\<rparr>, UID := req_UID req\<rparr>)"
    | (mutated) ar' req resp0 where "Decode body = (None, ar')" "path = ''/mutate''"
        "Request ar' = Some req" "mutate Unmarshal ar' = Inr resp0"
        "resp' = resp0\<lparr>UID := req_UID req\<rparr>"
      by blast
    then show ?SC
    proof cases
      case decode
      with p show ?thesis
        by (simp add: AdmissionResponse_zero_def split: option.splits)
    next
      case mutated
      with p have "Patch resp0 \<noteq> None" by simp
      from mutate_patch_allowed [OF mutated(4) this] mutated show ?thesis
        by auto
    qed
  qed
  from of_mutate of_serve show ?thesis by (rule conjI)
qed

theorem patch_only_when_allowed_witness:
  \<open>mutate example_Unmarshal (example_review ''default'') =
     Inr \<lparr>UID = [], Allowed = True, Result = None,
          Patch = Some ''[{"op":"add","path":"/metadata/annotations","value":{"kubed.appscode.com/sync":"true"}}]'',
          PatchType = Some ''JSONPatch''\<rparr> \<and>
   Patch \<lparr>UID = [], Allowed = True, Result = None,
          Patch = Some ''[{"op":"add","path":"/metadata/annotations","value":{"kubed.appscode.com/sync":"true"}}]'',
          PatchType = Some ''JSONPatch''\<rparr> \<noteq> None \<and>
   mutationRequired ignoredNamespaces (ObjectMeta (example_secret ''default''))\<close>
proof -
  note m = example_default_required
  note mu = example_default_mutate
  show ?thesis
    using mu patch_only_when_allowed
      [where Unmarshal = example_Unmarshal and ar = "example_review ''default''"
         and resp = \<open>\<lparr>UID = [], Allowed = True, Result = None,
           Patch = Some ''[{"op":"add","path":"/metadata/annotations","value":{"kubed.appscode.com/sync":"true"}}]'',
           PatchType = Some ''JSONPatch''\<rparr>\<close>]
    by (clarsimp simp: example_review_def example_Unmarshal_def)
qed

end
